theory Spec2Isabelle
  imports Main
begin

section \<open>Data model of \<open>node-zerox/src/models/google.ts\<close>\<close>

subsection \<open>JavaScript values\<close>

text \<open>
  The values the adapter only carries around (schema, generation parameters, parsed
  JSON). A JavaScript object is a list of entries in insertion order with pairwise
  distinct keys; \<open>JNumber\<close> carries the number opaquely (the adapter does no arithmetic
  on such values).
\<close>

datatype jsvalue =
    JUndefined
  | JNull
  | JBool bool
  | JNumber int
  | JString string
  | JArray "jsvalue list"
  | JObject "(string \<times> jsvalue) list"

type_synonym jsobject = "(string \<times> jsvalue) list"

text \<open>Property read on own entries, and property write (\<open>o[k] = v\<close>): an existing key
  keeps its position, a new key is appended.\<close>

definition obj_get :: "jsobject \<Rightarrow> string \<Rightarrow> jsvalue option" where
  "obj_get obj k = map_of obj k"

fun obj_set :: "string \<Rightarrow> jsvalue \<Rightarrow> jsobject \<Rightarrow> jsobject" where
  "obj_set k v [] = [(k, v)]"
| "obj_set k v ((k', v') # rest) =
     (if k' = k then (k, v) # rest else (k', v') # obj_set k v rest)"

definition fromEntries :: "(string \<times> jsvalue) list \<Rightarrow> jsobject" where
  "fromEntries es = foldl (\<lambda>obj (k, v). obj_set k v obj) [] es"

text \<open>A thrown value: an error object with its \<open>name\<close> and \<open>message\<close>.\<close>

datatype thrown = JsError (name: string) (message: string)

subsection \<open>Types of the adapter\<close>

text \<open>
  \<open>OperationMode\<close> is a string enum; at run time \<open>this.mode\<close> is whatever string the
  constructor was given. \<open>llmParams\<close> is optional (\<open>None\<close> is \<open>undefined\<close>).
\<close>

record GoogleModel =
  apiKey :: string
  mode :: string
  model :: string
  llmParams :: "jsobject option"

text \<open>
  \<open>CompletionArgs | ExtractionArgs\<close>: one argument object whose properties the handlers
  destructure (the casts \<open>params as ...\<close> do nothing at run time). A property that is
  absent reads as \<open>undefined\<close>: \<open>None\<close> for \<open>priorPage\<close>, \<open>JUndefined\<close> for \<open>schema\<close>, and
  \<open>False\<close> for \<open>maintainFormat\<close>, which is only tested for truth. \<open>image\<close> is the path
  handed to the encoder.
\<close>

record params =
  image_arg :: string
  maintainFormat :: bool
  priorPage :: "string option"
  schema :: jsvalue

datatype part =
    TextPart string
  | InlineData (data: string) (mimeType: string)

record content_msg =
  role :: string
  parts :: "part list"

record request =
  contents :: "content_msg list"

text \<open>The argument of \<open>getGenerativeModel\<close>; \<open>generationConfig = None\<close> is \<open>null\<close>.\<close>

record modelParams =
  generationConfig :: "jsobject option"
  modelName :: string

record usageMetadata =
  promptTokenCount :: "int option"
  candidatesTokenCount :: "int option"

text \<open>The vendor's response: \<open>response.text()\<close> may itself throw.\<close>

record response =
  responseText :: "thrown + string"
  usage :: "usageMetadata option"

datatype result =
    CompletionResponse (content: string) (inputTokens: int) (outputTokens: int)
  | ExtractionResponse (extracted: jsvalue) (inputTokens: int) (outputTokens: int)
  | OtherValue jsvalue

text \<open>What a call does besides returning: SDK calls and console output, in order.\<close>

datatype event =
    GetGenerativeModel modelParams
  | GenerateContent modelParams request
  | ConsoleError string thrown

subsection \<open>Collaborators\<close>

text \<open>
  The imports of the file that are not part of it: the prompt constants of
  \<open>../constants\<close>, the image encoder of \<open>../utils\<close>, the vendor SDK's
  \<open>generateContent\<close>, and the platform's \<open>JSON.parse\<close> (\<open>Inl\<close> is the message of the
  \<open>SyntaxError\<close> it throws).
\<close>

record env =
  SYSTEM_PROMPT_BASE :: string
  CONSISTENCY_PROMPT :: "string \<Rightarrow> string"
  encodeImageToBase64 :: "string \<Rightarrow> thrown + string"
  generateContent :: "modelParams \<Rightarrow> request \<Rightarrow> thrown + response"
  JSON_parse :: "string \<Rightarrow> string + jsvalue"

text \<open>
  Modelled from the spec: the enum \<open>OperationMode\<close> of \<open>../types\<close> is missing; the spec
  gives the enumeration {OCR, EXTRACTION}, taken here as a string enum whose values
  are the member names.
\<close>

definition OperationMode_EXTRACTION :: string where
  "OperationMode_EXTRACTION = ''EXTRACTION''"

definition OperationMode_OCR :: string where
  "OperationMode_OCR = ''OCR''"

text \<open>
  Modelled from the spec: \<open>convertKeysToSnakeCase\<close> of \<open>../utils\<close> is missing, and so
  is everything it is made of. The spec describes a stateless recursive mapping over a
  generic key-value structure that translates key names from camelCase to
  snake_case. The letters concerned are the upper-case ASCII letters.
\<close>

definition isUpper :: "char \<Rightarrow> bool" where
  "isUpper c = (65 \<le> (of_char c :: nat) \<and> (of_char c :: nat) \<le> 90)"

definition toLower :: "char \<Rightarrow> char" where
  "toLower c = (if isUpper c then char_of ((of_char c :: nat) + 32) else c)"

text \<open>
  Modelled from the spec: the translation of one key of \<open>../utils\<close>, camelCase to
  snake_case: every upper-case letter becomes an underscore followed by the
  lower-case letter.
\<close>

fun camelToSnakeCase :: "string \<Rightarrow> string" where
  "camelToSnakeCase [] = []"
| "camelToSnakeCase (c # cs) =
     (if isUpper c then CHR ''_'' # toLower c # camelToSnakeCase cs
      else c # camelToSnakeCase cs)"

text \<open>
  Modelled from the spec: the recursion of the missing \<open>convertKeysToSnakeCase\<close> into
  nested values. The keys of every object are translated, the entries being written
  one after the other (a later entry wins when two keys translate to the same name);
  a value that is not a key-value structure is returned as it is.
\<close>

fun convertValue :: "jsvalue \<Rightarrow> jsvalue" where
  "convertValue (JObject kvs) =
     JObject (fromEntries (map (\<lambda>(k, v). (camelToSnakeCase k, convertValue v)) kvs))"
| "convertValue (JArray xs) = JArray (map convertValue xs)"
| "convertValue v = v"

text \<open>
  Modelled from the spec: the missing \<open>convertKeysToSnakeCase\<close> on the entries of the
  object it is given.
\<close>

definition translateEntries :: "jsobject \<Rightarrow> jsobject" where
  "translateEntries kvs =
     fromEntries (map (\<lambda>(k, v). (camelToSnakeCase k, convertValue v)) kvs)"

text \<open>
  Modelled from the spec: \<open>convertKeysToSnakeCase\<close> of \<open>../utils\<close>, missing from the
  sources, on its argument \<open>this.llmParams ?? null\<close>: an object or \<open>null\<close> (\<open>None\<close>);
  \<open>null\<close> is no key-value structure and is returned as it is.
\<close>

definition convertKeysToSnakeCase :: "jsobject option \<Rightarrow> jsobject option" where
  "convertKeysToSnakeCase obj =
     (case obj of None \<Rightarrow> None | Some kvs \<Rightarrow> Some (translateEntries kvs))"

section \<open>The adapter\<close>

subsection \<open>Small pieces of JavaScript semantics\<close>

text \<open>\<open>x || 0\<close> on an optional number: \<open>undefined\<close> and \<open>0\<close> are falsy.\<close>

definition orZero :: "int option \<Rightarrow> int" where
  "orZero x = (case x of None \<Rightarrow> 0 | Some n \<Rightarrow> if n = 0 then 0 else n)"

text \<open>\<open>response.usageMetadata?.field\<close>.\<close>

definition optChain :: "usageMetadata option \<Rightarrow> (usageMetadata \<Rightarrow> int option) \<Rightarrow> int option" where
  "optChain u field = (case u of None \<Rightarrow> None | Some m \<Rightarrow> field m)"

text \<open>\<open>{...x}\<close>: spreading \<open>null\<close> adds no property.\<close>

definition spread :: "jsobject option \<Rightarrow> jsobject" where
  "spread x = (case x of None \<Rightarrow> [] | Some kvs \<Rightarrow> kvs)"

text \<open>
  The names \<open>Object.prototype\<close> defines. An object literal inherits them, so a
  property read \<open>obj[key]\<close> that finds no own entry finds these.
\<close>

definition objectPrototypeNames :: "string list" where
  "objectPrototypeNames =
     [''constructor'', ''__defineGetter__'', ''__defineSetter__'', ''hasOwnProperty'',
      ''__lookupGetter__'', ''__lookupSetter__'', ''isPrototypeOf'',
      ''propertyIsEnumerable'', ''toString'', ''valueOf'', ''__proto__'',
      ''toLocaleString'']"

text \<open>What \<open>modeHandlers[this.mode]\<close> can be: one of the two closures of the literal, or
  a property inherited from \<open>Object.prototype\<close>.\<close>

datatype handler =
    ExtractionHandler
  | OCRHandler
  | Inherited string

definition getProperty :: "(string \<times> handler) list \<Rightarrow> string \<Rightarrow> handler option" where
  "getProperty own key =
     (case map_of own key of
        Some h \<Rightarrow> Some h
      | None \<Rightarrow> if key \<in> set objectPrototypeNames then Some (Inherited key) else None)"

text \<open>
  \<open>handler()\<close> on an inherited property, called with no receiver and no argument:
  \<open>toString\<close> answers for \<open>undefined\<close>, \<open>constructor\<close> (that is \<open>Object\<close>) makes an empty
  object, \<open>isPrototypeOf\<close> returns false for a missing argument, \<open>__proto__\<close> reads as
  the prototype object, which is not callable, and the others convert the missing
  receiver to an object, which throws.
\<close>

definition callInherited :: "string \<Rightarrow> thrown + result" where
  "callInherited key =
     (if key = ''toString'' then Inr (OtherValue (JString ''[object Undefined]''))
      else if key = ''constructor'' then Inr (OtherValue (JObject []))
      else if key = ''isPrototypeOf'' then Inr (OtherValue (JBool False))
      else if key = ''__proto__'' then Inl (JsError ''TypeError'' ''handler is not a function'')
      else Inl (JsError ''TypeError'' ''Cannot convert undefined or null to object''))"

subsection \<open>\<open>handleOCR\<close>\<close>

text \<open>
  Each handler returns what the promise settles to (\<open>Inl\<close> a rejection) and the events
  of the call. \<open>this.llmParams ?? null\<close> turns \<open>undefined\<close> into \<open>null\<close>; both are \<open>None\<close>
  here. \<open>getGenerativeModel\<close> only builds the handle that \<open>generateContent\<close> is called
  on. The image is encoded outside the \<open>try\<close> block, so a failure there is not logged;
  everything from \<open>generateContent\<close> on is inside it.
\<close>

definition handleOCR :: "env \<Rightarrow> GoogleModel \<Rightarrow> params \<Rightarrow> (thrown + result) \<times> event list" where
  "handleOCR env this args =
     (let generativeModel =
            \<lparr>generationConfig = convertKeysToSnakeCase (llmParams this),
             modelName = model this\<rparr>;
          promptParts = [];
          promptParts = promptParts @ [TextPart (SYSTEM_PROMPT_BASE env)];
          promptParts =
            (case priorPage args of
               None \<Rightarrow> promptParts
             | Some p \<Rightarrow>
                 if maintainFormat args \<and> p \<noteq> [] \<and> length p \<noteq> 0
                 then promptParts @ [TextPart (CONSISTENCY_PROMPT env p)]
                 else promptParts)
      in case encodeImageToBase64 env (image_arg args) of
           Inl err \<Rightarrow> (Inl err, [GetGenerativeModel generativeModel])
         | Inr base64Image \<Rightarrow>
             (let imageData = InlineData base64Image ''image/png'';
                  promptParts = promptParts @ [imageData];
                  req = \<lparr>contents = [\<lparr>role = ''user'', parts = promptParts\<rparr>]\<rparr>;
                  called = [GetGenerativeModel generativeModel,
                            GenerateContent generativeModel req]
              in case generateContent env generativeModel req of
                   Inl err \<Rightarrow>
                     (Inl err, called @ [ConsoleError ''Error in Google completion'' err])
                 | Inr resp \<Rightarrow>
                     (case responseText resp of
                        Inl err \<Rightarrow>
                          (Inl err, called @ [ConsoleError ''Error in Google completion'' err])
                      | Inr txt \<Rightarrow>
                          (Inr (CompletionResponse txt
                                  (orZero (optChain (usage resp) promptTokenCount))
                                  (orZero (optChain (usage resp) candidatesTokenCount))),
                           called))))"

subsection \<open>\<open>handleExtraction\<close>\<close>

definition handleExtraction :: "env \<Rightarrow> GoogleModel \<Rightarrow> params \<Rightarrow> (thrown + result) \<times> event list" where
  "handleExtraction env this args =
     (let generativeModel =
            \<lparr>generationConfig =
               Some (obj_set ''responseSchema'' (schema args)
                      (obj_set ''responseMimeType'' (JString ''application/json'')
                        (spread (convertKeysToSnakeCase (llmParams this))))),
             modelName = model this\<rparr>;
          promptParts = [];
          txt = ''Extract schema data from the following image'';
          promptParts = promptParts @ [TextPart txt]
      in case encodeImageToBase64 env (image_arg args) of
           Inl err \<Rightarrow> (Inl err, [GetGenerativeModel generativeModel])
         | Inr base64Image \<Rightarrow>
             (let imageData = InlineData base64Image ''image/png'';
                  promptParts = promptParts @ [imageData];
                  req = \<lparr>contents = [\<lparr>role = ''user'', parts = promptParts\<rparr>]\<rparr>;
                  called = [GetGenerativeModel generativeModel,
                            GenerateContent generativeModel req]
              in case generateContent env generativeModel req of
                   Inl err \<Rightarrow>
                     (Inl err, called @ [ConsoleError ''Error in Google completion'' err])
                 | Inr resp \<Rightarrow>
                     (case responseText resp of
                        Inl err \<Rightarrow>
                          (Inl err, called @ [ConsoleError ''Error in Google completion'' err])
                      | Inr rtxt \<Rightarrow>
                          (case JSON_parse env rtxt of
                             Inl msg \<Rightarrow>
                               (Inl (JsError ''SyntaxError'' msg),
                                called @ [ConsoleError ''Error in Google completion''
                                            (JsError ''SyntaxError'' msg)])
                           | Inr v \<Rightarrow>
                               (Inr (ExtractionResponse v
                                       (orZero (optChain (usage resp) promptTokenCount))
                                       (orZero (optChain (usage resp) candidatesTokenCount))),
                                called)))))"

subsection \<open>\<open>getCompletion\<close>\<close>

text \<open>The object literal \<open>modeHandlers\<close>: two computed keys, written in this order.\<close>

definition modeHandlers :: "(string \<times> handler) list" where
  "modeHandlers =
     [(OperationMode_EXTRACTION, ExtractionHandler), (OperationMode_OCR, OCRHandler)]"

definition callHandler ::
  "env \<Rightarrow> GoogleModel \<Rightarrow> params \<Rightarrow> handler \<Rightarrow> (thrown + result) \<times> event list" where
  "callHandler env this ps h =
     (case h of
        ExtractionHandler \<Rightarrow> handleExtraction env this ps
      | OCRHandler \<Rightarrow> handleOCR env this ps
      | Inherited key \<Rightarrow> (callInherited key, []))"

definition getCompletion :: "env \<Rightarrow> GoogleModel \<Rightarrow> params \<Rightarrow> (thrown + result) \<times> event list" where
  "getCompletion env this ps =
     (case getProperty modeHandlers (mode this) of
        None \<Rightarrow> (Inl (JsError ''Error'' (''Unsupported operation mode: '' @ mode this)), [])
      | Some h \<Rightarrow> callHandler env this ps h)"

subsection \<open>Observing a call\<close>

text \<open>The requests sent to the vendor, and the model parameters handed to the SDK, in
  the order of the events.\<close>

fun requestsOf :: "event list \<Rightarrow> request list" where
  "requestsOf [] = []"
| "requestsOf (GenerateContent mp req # es) = req # requestsOf es"
| "requestsOf (e # es) = requestsOf es"

fun configsOf :: "event list \<Rightarrow> modelParams list" where
  "configsOf [] = []"
| "configsOf (GetGenerativeModel mp # es) = mp # configsOf es"
| "configsOf (GenerateContent mp req # es) = mp # configsOf es"
| "configsOf (e # es) = configsOf es"

fun isInlineData :: "part \<Rightarrow> bool" where
  "isInlineData (InlineData d m) = True"
| "isInlineData (TextPart t) = False"

text \<open>
  A substitute for the collaborators, with a vendor that answers every call with the
  given outcome and a parser that knows two documents.
\<close>

definition substituteEnv :: "(thrown + response) \<Rightarrow> env" where
  "substituteEnv outcome =
     \<lparr>SYSTEM_PROMPT_BASE = ''Convert the following document to markdown.'',
      CONSISTENCY_PROMPT = (\<lambda>priorPage. ''Keep the formatting of this page: '' @ priorPage),
      encodeImageToBase64 = (\<lambda>path. Inr ''iVBORw0KGgo=''),
      generateContent = (\<lambda>mp req. outcome),
      JSON_parse =
        (\<lambda>s. if s = ''{}'' then Inr (JObject [])
             else if s = ''null'' then Inr JNull
             else Inl ''Unexpected token'')\<rparr>"

definition adapterFor :: "string \<Rightarrow> GoogleModel" where
  "adapterFor m =
     \<lparr>apiKey = ''key'', mode = m, model = ''gemini-1.5-flash'',
      llmParams = Some [(''maxOutputTokens'', JNumber 256), (''topK'', JNumber 4)]\<rparr>"

definition pageArgs :: "bool \<Rightarrow> string option \<Rightarrow> params" where
  "pageArgs keep prior =
     \<lparr>image_arg = ''page-1.png'', maintainFormat = keep, priorPage = prior,
      schema = JObject [(''type'', JString ''object'')]\<rparr>"

section \<open>Properties\<close>

subsection \<open>Objects\<close>

lemma obj_get_set_same: "obj_get (obj_set k v obj) k = Some v"
  by (induction obj) (auto simp: obj_get_def)

lemma obj_get_set_other: "k' \<noteq> k \<Longrightarrow> obj_get (obj_set k v obj) k' = obj_get obj k'"
  by (induction obj) (auto simp: obj_get_def)

lemma keys_obj_set: "fst ` set (obj_set k v obj) = insert k (fst ` set obj)"
proof (induction obj)
  case Nil
  then show ?case by simp
next
  case (Cons e obj)
  obtain k' v' where e: "e = (k', v')" by (cases e)
  show ?case
  proof (cases "k' = k")
    case True
    with e show ?thesis by simp
  next
    case False
    with e Cons.IH show ?thesis by (simp add: insert_commute)
  qed
qed

lemma foldl_obj_set_keys:
  "fst ` set (foldl (\<lambda>obj (k, v). obj_set k v obj) acc es) = fst ` set acc \<union> fst ` set es"
proof (induction es arbitrary: acc)
  case Nil
  then show ?case by simp
next
  case (Cons e es)
  obtain k v where e: "e = (k, v)" by (cases e)
  show ?case using Cons.IH [of "obj_set k v acc"] e by (simp add: keys_obj_set)
qed

lemma keys_fromEntries: "fst ` set (fromEntries es) = fst ` set es"
  by (simp add: fromEntries_def foldl_obj_set_keys)

lemma obj_set_fresh: "k \<notin> fst ` set obj \<Longrightarrow> obj_set k v obj = obj @ [(k, v)]"
  by (induction obj) auto

lemma foldl_obj_set_distinct:
  "distinct (map fst (acc @ es)) \<Longrightarrow> foldl (\<lambda>obj (k, v). obj_set k v obj) acc es = acc @ es"
proof (induction es arbitrary: acc)
  case Nil
  then show ?case by simp
next
  case (Cons e es)
  obtain k v where e: "e = (k, v)" by (cases e)
  from Cons.prems e have fresh: "k \<notin> fst ` set acc" by auto
  from Cons.prems e have d: "distinct (map fst ((acc @ [(k, v)]) @ es))" by auto
  show ?case using Cons.IH [OF d] fresh e by (simp add: obj_set_fresh)
qed

lemma fromEntries_distinct: "distinct (map fst es) \<Longrightarrow> fromEntries es = es"
  using foldl_obj_set_distinct [of "[]" es] by (simp add: fromEntries_def)

subsection \<open>Key translation\<close>

lemma toLower_not_upper: "\<not> isUpper (toLower c)"
proof (cases "isUpper c")
  case True
  then have b: "65 \<le> (of_char c :: nat)" "(of_char c :: nat) \<le> 90"
    by (simp_all add: isUpper_def)
  then have "(of_char (char_of ((of_char c :: nat) + 32)) :: nat) = of_char c + 32"
    by simp
  with b True show ?thesis by (simp add: toLower_def isUpper_def)
next
  case False
  then show ?thesis by (simp add: toLower_def)
qed

lemma camelToSnakeCase_no_upper: "c \<in> set (camelToSnakeCase s) \<Longrightarrow> \<not> isUpper c"
proof (induction s)
  case Nil
  then show ?case by simp
next
  case (Cons a s)
  show ?case
  proof (cases "isUpper a")
    case True
    with Cons.prems have "c = CHR ''_'' \<or> c = toLower a \<or> c \<in> set (camelToSnakeCase s)"
      by simp
    moreover have "\<not> isUpper (CHR ''_'')" by (simp add: isUpper_def)
    ultimately show ?thesis using Cons.IH toLower_not_upper by blast
  next
    case False
    with Cons.prems have "c = a \<or> c \<in> set (camelToSnakeCase s)" by simp
    with False Cons.IH show ?thesis by blast
  qed
qed


lemma snake_ne_responseMimeType: "camelToSnakeCase k \<noteq> ''responseMimeType''"
proof
  assume "camelToSnakeCase k = ''responseMimeType''"
  then have "CHR ''M'' \<in> set (camelToSnakeCase k)" by simp
  then have "\<not> isUpper (CHR ''M'')" by (rule camelToSnakeCase_no_upper)
  then show False by (simp add: isUpper_def)
qed

lemma snake_ne_responseSchema: "camelToSnakeCase k \<noteq> ''responseSchema''"
proof
  assume "camelToSnakeCase k = ''responseSchema''"
  then have "CHR ''S'' \<in> set (camelToSnakeCase k)" by simp
  then have "\<not> isUpper (CHR ''S'')" by (rule camelToSnakeCase_no_upper)
  then show False by (simp add: isUpper_def)
qed

lemma keys_translateEntries: "fst ` set (translateEntries kvs) = camelToSnakeCase ` fst ` set kvs"
  by (force simp: translateEntries_def keys_fromEntries)

lemma lookup_translateEntries:
  assumes "distinct (map (\<lambda>(k, v). camelToSnakeCase k) kvs)" and "(k, v) \<in> set kvs"
  shows "obj_get (translateEntries kvs) (camelToSnakeCase k) = Some (convertValue v)"
proof -
  let ?es = "map (\<lambda>(k, v). (camelToSnakeCase k, convertValue v)) kvs"
  have d: "distinct (map fst ?es)"
    using assms(1) by (simp add: case_prod_unfold comp_def)
  have "(camelToSnakeCase k, convertValue v) \<in> set ?es"
    using assms(2) by force
  with d have "map_of ?es (camelToSnakeCase k) = Some (convertValue v)"
    by simp
  with d show ?thesis
    by (simp add: translateEntries_def fromEntries_distinct obj_get_def)
qed

lemma convertKeysToSnakeCase_Some: "convertKeysToSnakeCase (Some kvs) = Some (translateEntries kvs)"
  by (simp add: convertKeysToSnakeCase_def)

lemma configsOf_handleOCR:
  "set (configsOf (snd (handleOCR env this ps))) =
     {\<lparr>generationConfig = convertKeysToSnakeCase (llmParams this), modelName = model this\<rparr>}"
  by (auto simp: handleOCR_def Let_def split: sum.splits option.splits)

lemma configsOf_handleExtraction:
  "set (configsOf (snd (handleExtraction env this ps))) =
     {\<lparr>generationConfig =
         Some (obj_set ''responseSchema'' (schema ps)
                (obj_set ''responseMimeType'' (JString ''application/json'')
                  (spread (convertKeysToSnakeCase (llmParams this))))),
       modelName = model this\<rparr>}"
  by (auto simp: handleExtraction_def Let_def split: sum.splits)



lemma configsOf_nonempty: "set (configsOf tr) = {mp} \<Longrightarrow> configsOf tr \<noteq> []"
proof
  assume s: "set (configsOf tr) = {mp}" and "configsOf tr = []"
  then have "set (configsOf tr) = {}" by simp
  with s show False by simp
qed

lemma ocr_config_keys:
  assumes "mode this \<noteq> OperationMode_EXTRACTION"
  shows "fst ` set (translateEntries kvs) =
           camelToSnakeCase ` fst ` set kvs
           \<union> (if mode this = OperationMode_EXTRACTION
               then {''responseMimeType'', ''responseSchema''} else {})"
  using assms by (simp only: keys_translateEntries if_False Un_empty_right)

lemma extraction_config_keys:
  assumes "mode this = OperationMode_EXTRACTION"
  shows "fst ` set (obj_set ''responseSchema'' sc
                     (obj_set ''responseMimeType'' mt (translateEntries kvs))) =
           camelToSnakeCase ` fst ` set kvs
           \<union> (if mode this = OperationMode_EXTRACTION
               then {''responseMimeType'', ''responseSchema''} else {})"
proof -
  have "fst ` set (obj_set ''responseSchema'' sc
                    (obj_set ''responseMimeType'' mt (translateEntries kvs))) =
        insert ''responseSchema'' (insert ''responseMimeType'' (fst ` set (translateEntries kvs)))"
    by (simp only: keys_obj_set)
  also have "\<dots> = camelToSnakeCase ` fst ` set kvs \<union> {''responseMimeType'', ''responseSchema''}"
    unfolding keys_translateEntries by blast
  finally show ?thesis using assms by (simp only: simp_thms if_True)
qed

lemma ocr_config_lookup:
  "distinct (map (\<lambda>(k, v). camelToSnakeCase k) kvs) \<longrightarrow>
     (\<forall>(k, v) \<in> set kvs.
        obj_get (translateEntries kvs) (camelToSnakeCase k) = Some (convertValue v))"
  by (auto simp: lookup_translateEntries)

lemma extraction_config_lookup:
  "distinct (map (\<lambda>(k, v). camelToSnakeCase k) kvs) \<longrightarrow>
     (\<forall>(k, v) \<in> set kvs.
        obj_get (obj_set ''responseSchema'' sc
                  (obj_set ''responseMimeType'' mt (translateEntries kvs)))
          (camelToSnakeCase k) = Some (convertValue v))"
  by (auto simp: obj_get_set_other snake_ne_responseMimeType snake_ne_responseSchema
      lookup_translateEntries)

subsection \<open>Dispatch\<close>

lemma getCompletion_OCR:
  "mode this = OperationMode_OCR \<Longrightarrow> getCompletion env this ps = handleOCR env this ps"
  by (simp add: getCompletion_def getProperty_def modeHandlers_def callHandler_def
      OperationMode_EXTRACTION_def OperationMode_OCR_def)

lemma getCompletion_EXTRACTION:
  "mode this = OperationMode_EXTRACTION \<Longrightarrow>
   getCompletion env this ps = handleExtraction env this ps"
  by (simp add: getCompletion_def getProperty_def modeHandlers_def callHandler_def
      OperationMode_EXTRACTION_def OperationMode_OCR_def)

lemma getCompletion_unregistered:
  "mode this \<noteq> OperationMode_OCR \<Longrightarrow> mode this \<noteq> OperationMode_EXTRACTION \<Longrightarrow>
   getCompletion env this ps =
     (if mode this \<in> set objectPrototypeNames then (callInherited (mode this), [])
      else (Inl (JsError ''Error'' (''Unsupported operation mode: '' @ mode this)), []))"
  by (simp add: getCompletion_def getProperty_def modeHandlers_def callHandler_def)

text \<open>
  Whatever the unregistered mode is, no SDK call is made and nothing is logged; and
  the unsupported-mode error is raised for every unregistered mode that is not the
  name of an inherited property.
\<close>

lemma unregistered_mode_makes_no_call:
  "mode this \<noteq> OperationMode_OCR \<Longrightarrow> mode this \<noteq> OperationMode_EXTRACTION \<Longrightarrow>
   snd (getCompletion env this ps) = []"
  by (simp add: getCompletion_unregistered)

lemma unregistered_mode_rejected_unless_inherited:
  "mode this \<noteq> OperationMode_OCR \<Longrightarrow> mode this \<noteq> OperationMode_EXTRACTION \<Longrightarrow>
   mode this \<notin> set objectPrototypeNames \<Longrightarrow>
   getCompletion env this ps =
     (Inl (JsError ''Error'' (''Unsupported operation mode: '' @ mode this)), [])"
  by (simp add: getCompletion_unregistered)

lemma registered_mode_finds_handler:
  "getProperty modeHandlers OperationMode_OCR = Some OCRHandler"
  "getProperty modeHandlers OperationMode_EXTRACTION = Some ExtractionHandler"
  by (simp_all add: getProperty_def modeHandlers_def
      OperationMode_EXTRACTION_def OperationMode_OCR_def)

section \<open>The claims\<close>

subsection \<open>C1: an unparseable extraction response raises\<close>

text \<open>
  C1, as stated, fails in one part: the error of a parse failure is not distinct from
  a vendor-call error. The handler has one \<open>try\<close> block around the vendor call and the
  parse, one \<open>catch\<close> with one log label, and no error class of its own. A response
  whose text does not parse and a vendor call that fails with the same
  \<open>SyntaxError\<close> give the same rejection and the same events.
\<close>

theorem parse_failure_same_as_vendor_failure_counterexample:
  "getCompletion (substituteEnv (Inr \<lparr>responseText = Inr ''not json'', usage = None\<rparr>))
     (adapterFor OperationMode_EXTRACTION) (pageArgs False None)
   = getCompletion (substituteEnv (Inl (JsError ''SyntaxError'' ''Unexpected token'')))
       (adapterFor OperationMode_EXTRACTION) (pageArgs False None)"
  by code_simp

text \<open>
  C1, amended. In EXTRACTION mode, when the vendor call has succeeded and the text of
  its response is not parseable as JSON, \<open>getCompletion\<close> rejects with the
  \<open>SyntaxError\<close> thrown by the parser, after logging it once under the label used for
  every error of the completion; it returns no result at all, so none whose
  \<open>extracted\<close> field is null.
\<close>

theorem extraction_unparseable_text_raises:
  assumes "mode this = OperationMode_EXTRACTION"
    and "GenerateContent mp req \<in> set (snd (getCompletion env this ps))"
    and "generateContent env mp req = Inr resp"
    and "responseText resp = Inr txt"
    and "JSON_parse env txt = Inl msg"
  shows "getCompletion env this ps =
           (Inl (JsError ''SyntaxError'' msg),
            [GetGenerativeModel mp, GenerateContent mp req,
             ConsoleError ''Error in Google completion'' (JsError ''SyntaxError'' msg)])
         \<and> (\<forall>r. fst (getCompletion env this ps) \<noteq> Inr r)"
  using assms
  by (auto simp: getCompletion_EXTRACTION handleExtraction_def Let_def split: sum.splits)

theorem extraction_unparseable_text_raises_witness:
  "getCompletion
     (substituteEnv (Inr \<lparr>responseText = Inr ''not json'', usage = None\<rparr>))
     (adapterFor OperationMode_EXTRACTION) (pageArgs False None)
   = (Inl (JsError ''SyntaxError'' ''Unexpected token''),
      [GetGenerativeModel
         \<lparr>generationConfig =
            Some [(''max_output_tokens'', JNumber 256), (''top_k'', JNumber 4),
                  (''responseMimeType'', JString ''application/json''),
                  (''responseSchema'', JObject [(''type'', JString ''object'')])],
          modelName = ''gemini-1.5-flash''\<rparr>,
       GenerateContent
         \<lparr>generationConfig =
            Some [(''max_output_tokens'', JNumber 256), (''top_k'', JNumber 4),
                  (''responseMimeType'', JString ''application/json''),
                  (''responseSchema'', JObject [(''type'', JString ''object'')])],
          modelName = ''gemini-1.5-flash''\<rparr>
         \<lparr>contents =
            [\<lparr>role = ''user'',
              parts = [TextPart ''Extract schema data from the following image'',
                       InlineData ''iVBORw0KGgo='' ''image/png'']\<rparr>]\<rparr>,
       ConsoleError ''Error in Google completion''
         (JsError ''SyntaxError'' ''Unexpected token'')])"
proof -
  let ?resp = "\<lparr>responseText = Inr ''not json'', usage = None\<rparr>"
  let ?env = "substituteEnv (Inr ?resp)"
  let ?adapter = "adapterFor OperationMode_EXTRACTION"
  let ?mp = "\<lparr>generationConfig =
                Some [(''max_output_tokens'', JNumber 256), (''top_k'', JNumber 4),
                      (''responseMimeType'', JString ''application/json''),
                      (''responseSchema'', JObject [(''type'', JString ''object'')])],
              modelName = ''gemini-1.5-flash''\<rparr>"
  let ?req = "\<lparr>contents =
                [\<lparr>role = ''user'',
                  parts = [TextPart ''Extract schema data from the following image'',
                           InlineData ''iVBORw0KGgo='' ''image/png'']\<rparr>]\<rparr>"
  have h1: "mode ?adapter = OperationMode_EXTRACTION"
    by (simp add: adapterFor_def)
  have h2: "GenerateContent ?mp ?req \<in> set (snd (getCompletion ?env ?adapter (pageArgs False None)))"
    by code_simp
  have h3: "generateContent ?env ?mp ?req = Inr ?resp"
    by (simp add: substituteEnv_def)
  have h4: "responseText ?resp = Inr ''not json''"
    by simp
  have h5: "JSON_parse ?env ''not json'' = Inl ''Unexpected token''"
    by (simp add: substituteEnv_def)
  from extraction_unparseable_text_raises [OF h1 h2 h3 h4 h5] show ?thesis
    by blast
qed

subsection \<open>C2: the consistency instruction of an OCR request\<close>

text \<open>
  C2. For an OCR request with \<open>maintainFormat\<close> true and a non-empty \<open>priorPage\<close>, the
  parts sent to the vendor are exactly three: the base instruction, then one
  consistency instruction made from that prior-page text, then the inline image.
  (When the image cannot be encoded, nothing is sent.)
\<close>

theorem ocr_consistency_part_between_base_and_image:
  assumes "mode this = OperationMode_OCR"
    and "maintainFormat ps"
    and "priorPage ps = Some p"
    and "p \<noteq> []"
  shows "requestsOf (snd (getCompletion env this ps)) =
           (case encodeImageToBase64 env (image_arg ps) of
              Inl err \<Rightarrow> []
            | Inr b64 \<Rightarrow>
                [\<lparr>contents =
                    [\<lparr>role = ''user'',
                      parts = [TextPart (SYSTEM_PROMPT_BASE env),
                               TextPart (CONSISTENCY_PROMPT env p),
                               InlineData b64 ''image/png'']\<rparr>]\<rparr>])"
  using assms
  by (simp add: getCompletion_OCR handleOCR_def Let_def split: sum.splits)

theorem ocr_consistency_part_between_base_and_image_witness:
  "requestsOf (snd (getCompletion
       (substituteEnv (Inr \<lparr>responseText = Inr ''# Page 2'', usage = None\<rparr>))
       (adapterFor OperationMode_OCR) (pageArgs True (Some ''# Page 1''))))
   = [\<lparr>contents =
        [\<lparr>role = ''user'',
          parts = [TextPart ''Convert the following document to markdown.'',
                   TextPart ''Keep the formatting of this page: # Page 1'',
                   InlineData ''iVBORw0KGgo='' ''image/png'']\<rparr>]\<rparr>]"
proof -
  let ?env = "substituteEnv (Inr \<lparr>responseText = Inr ''# Page 2'', usage = None\<rparr>)"
  let ?ps = "pageArgs True (Some ''# Page 1'')"
  have h1: "mode (adapterFor OperationMode_OCR) = OperationMode_OCR"
    by (simp add: adapterFor_def)
  have h2: "maintainFormat ?ps"
    by (simp add: pageArgs_def)
  have h3: "priorPage ?ps = Some ''# Page 1''"
    by (simp add: pageArgs_def)
  have h4: "''# Page 1'' \<noteq> []"
    by simp
  from ocr_consistency_part_between_base_and_image [OF h1 h2 h3 h4, of ?env] show ?thesis
    by (simp add: substituteEnv_def)
qed

subsection \<open>C3: unregistered modes\<close>

text \<open>
  C3. The guard \<open>if (!handler)\<close> is there to reject every mode without a handler, but
  \<open>modeHandlers[this.mode]\<close> also finds the properties that the object literal inherits
  from \<open>Object.prototype\<close>. An adapter constructed with the mode \<open>toString\<close>, which is
  neither OCR nor EXTRACTION, is not rejected: the inherited function is taken for
  the handler and the call resolves to a string. No call to the vendor is made.
\<close>

theorem toString_mode_is_not_rejected:
  "''toString'' \<noteq> OperationMode_OCR \<and> ''toString'' \<noteq> OperationMode_EXTRACTION
   \<and> getCompletion (substituteEnv (Inl (JsError ''Error'' ''offline''))) (adapterFor ''toString'')
        (pageArgs False None)
      = (Inr (OtherValue (JString ''[object Undefined]'')), [])
   \<and> fst (getCompletion (substituteEnv (Inl (JsError ''Error'' ''offline'')))
             (adapterFor ''toString'') (pageArgs False None))
      \<noteq> Inl (JsError ''Error'' ''Unsupported operation mode: toString'')"
  by (simp add: getCompletion_def getProperty_def modeHandlers_def callHandler_def
      callInherited_def objectPrototypeNames_def adapterFor_def
      OperationMode_EXTRACTION_def OperationMode_OCR_def)

subsection \<open>C4: the generation configuration of an extraction\<close>

text \<open>
  C4. In EXTRACTION mode, model parameters are handed to the SDK, and every generation
  configuration among them has \<open>responseMimeType\<close> set to \<open>application/json\<close> and
  \<open>responseSchema\<close> set to the caller's schema, as given.
\<close>

theorem extraction_config_requests_json_with_schema:
  assumes "mode this = OperationMode_EXTRACTION"
  shows "configsOf (snd (getCompletion env this ps)) \<noteq> []
         \<and> (\<forall>mp \<in> set (configsOf (snd (getCompletion env this ps))).
              \<exists>cfg. generationConfig mp = Some cfg
                \<and> obj_get cfg ''responseMimeType'' = Some (JString ''application/json'')
                \<and> obj_get cfg ''responseSchema'' = Some (schema ps))"
  using assms
  by (auto simp: getCompletion_EXTRACTION handleExtraction_def Let_def
      obj_get_set_same obj_get_set_other split: sum.splits)

theorem extraction_config_requests_json_with_schema_witness:
  "hd (configsOf (snd (getCompletion
         (substituteEnv (Inr \<lparr>responseText = Inr ''{}'', usage = None\<rparr>))
         (adapterFor OperationMode_EXTRACTION) (pageArgs False None))))
   = \<lparr>generationConfig =
        Some [(''max_output_tokens'', JNumber 256), (''top_k'', JNumber 4),
              (''responseMimeType'', JString ''application/json''),
              (''responseSchema'', JObject [(''type'', JString ''object'')])],
      modelName = ''gemini-1.5-flash''\<rparr>
   \<and> obj_get [(''max_output_tokens'', JNumber 256), (''top_k'', JNumber 4),
                (''responseMimeType'', JString ''application/json''),
                (''responseSchema'', JObject [(''type'', JString ''object'')])]
         ''responseMimeType''
       = Some (JString ''application/json'')
   \<and> obj_get [(''max_output_tokens'', JNumber 256), (''top_k'', JNumber 4),
                (''responseMimeType'', JString ''application/json''),
                (''responseSchema'', JObject [(''type'', JString ''object'')])]
         ''responseSchema''
       = Some (JObject [(''type'', JString ''object'')])"
proof -
  let ?env = "substituteEnv (Inr \<lparr>responseText = Inr ''{}'', usage = None\<rparr>)"
  let ?adapter = "adapterFor OperationMode_EXTRACTION"
  let ?ps = "pageArgs False None"
  let ?cfg = "[(''max_output_tokens'', JNumber 256), (''top_k'', JNumber 4),
               (''responseMimeType'', JString ''application/json''),
               (''responseSchema'', JObject [(''type'', JString ''object'')])]"
  let ?mp = "\<lparr>generationConfig = Some ?cfg, modelName = ''gemini-1.5-flash''\<rparr>"
  have h1: "mode ?adapter = OperationMode_EXTRACTION"
    by (simp add: adapterFor_def)
  have hd: "hd (configsOf (snd (getCompletion ?env ?adapter ?ps))) = ?mp"
    by code_simp
  have h2: "?mp \<in> set (configsOf (snd (getCompletion ?env ?adapter ?ps)))"
    by code_simp
  have s: "schema ?ps = JObject [(''type'', JString ''object'')]"
    by (simp add: pageArgs_def)
  from extraction_config_requests_json_with_schema [OF h1, of ?env ?ps] h2
  have "\<exists>cfg. generationConfig ?mp = Some cfg
          \<and> obj_get cfg ''responseMimeType'' = Some (JString ''application/json'')
          \<and> obj_get cfg ''responseSchema'' = Some (schema ?ps)"
    by blast
  with s have "obj_get ?cfg ''responseMimeType'' = Some (JString ''application/json'')"
    and "obj_get ?cfg ''responseSchema'' = Some (JObject [(''type'', JString ''object'')])"
    by simp_all
  with hd show ?thesis by (intro conjI)
qed

subsection \<open>C5: missing usage metadata\<close>

text \<open>
  C5. When the vendor's response carries no usage metadata, the call still succeeds
  and both token counts of the result are 0: in OCR mode whenever the response has a
  text, in EXTRACTION mode whenever that text parses.
\<close>

theorem missing_usage_metadata_gives_zero_tokens:
  assumes "GenerateContent mp req \<in> set (snd (getCompletion env this ps))"
    and "generateContent env mp req = Inr resp"
    and "usage resp = None"
    and "responseText resp = Inr txt"
  shows "(mode this = OperationMode_OCR \<longrightarrow>
            fst (getCompletion env this ps) = Inr (CompletionResponse txt 0 0))
         \<and> (mode this = OperationMode_EXTRACTION \<longrightarrow>
              (\<forall>v. JSON_parse env txt = Inr v \<longrightarrow>
                 fst (getCompletion env this ps) = Inr (ExtractionResponse v 0 0)))"
proof (intro conjI impI allI)
  assume "mode this = OperationMode_OCR"
  with assms show "fst (getCompletion env this ps) = Inr (CompletionResponse txt 0 0)"
    by (auto simp: getCompletion_OCR handleOCR_def Let_def orZero_def optChain_def
        split: sum.splits option.splits if_splits)
next
  fix v
  assume "mode this = OperationMode_EXTRACTION" "JSON_parse env txt = Inr v"
  with assms show "fst (getCompletion env this ps) = Inr (ExtractionResponse v 0 0)"
    by (auto simp: getCompletion_EXTRACTION handleExtraction_def Let_def orZero_def optChain_def
        split: sum.splits)
qed

theorem missing_usage_metadata_gives_zero_tokens_witness:
  "fst (getCompletion (substituteEnv (Inr \<lparr>responseText = Inr ''{}'', usage = None\<rparr>))
         (adapterFor OperationMode_OCR) (pageArgs False None))
   = Inr (CompletionResponse ''{}'' 0 0)
   \<and> fst (getCompletion (substituteEnv (Inr \<lparr>responseText = Inr ''{}'', usage = None\<rparr>))
           (adapterFor OperationMode_EXTRACTION) (pageArgs False None))
       = Inr (ExtractionResponse (JObject []) 0 0)"
proof -
  let ?resp = "\<lparr>responseText = Inr ''{}'', usage = None\<rparr>"
  let ?env = "substituteEnv (Inr ?resp)"
  let ?ps = "pageArgs False None"
  let ?req1 = "\<lparr>contents =
                 [\<lparr>role = ''user'',
                   parts = [TextPart ''Convert the following document to markdown.'',
                            InlineData ''iVBORw0KGgo='' ''image/png'']\<rparr>]\<rparr>"
  let ?mp1 = "\<lparr>generationConfig =
                 Some [(''max_output_tokens'', JNumber 256), (''top_k'', JNumber 4)],
               modelName = ''gemini-1.5-flash''\<rparr>"
  let ?req2 = "\<lparr>contents =
                 [\<lparr>role = ''user'',
                   parts = [TextPart ''Extract schema data from the following image'',
                            InlineData ''iVBORw0KGgo='' ''image/png'']\<rparr>]\<rparr>"
  let ?mp2 = "\<lparr>generationConfig =
                 Some [(''max_output_tokens'', JNumber 256), (''top_k'', JNumber 4),
                       (''responseMimeType'', JString ''application/json''),
                       (''responseSchema'', JObject [(''type'', JString ''object'')])],
               modelName = ''gemini-1.5-flash''\<rparr>"
  have c1: "GenerateContent ?mp1 ?req1
              \<in> set (snd (getCompletion ?env (adapterFor OperationMode_OCR) ?ps))"
    by code_simp
  have c2: "GenerateContent ?mp2 ?req2
              \<in> set (snd (getCompletion ?env (adapterFor OperationMode_EXTRACTION) ?ps))"
    by code_simp
  have v1: "generateContent ?env ?mp1 ?req1 = Inr ?resp"
    by (simp add: substituteEnv_def)
  have v2: "generateContent ?env ?mp2 ?req2 = Inr ?resp"
    by (simp add: substituteEnv_def)
  have u: "usage ?resp = None" and t: "responseText ?resp = Inr ''{}''"
    by simp_all
  have m1: "mode (adapterFor OperationMode_OCR) = OperationMode_OCR"
    and m2: "mode (adapterFor OperationMode_EXTRACTION) = OperationMode_EXTRACTION"
    by (simp_all add: adapterFor_def)
  have p: "JSON_parse ?env ''{}'' = Inr (JObject [])"
    by (simp add: substituteEnv_def)
  from missing_usage_metadata_gives_zero_tokens [OF c1 v1 u t] m1
  have a: "fst (getCompletion ?env (adapterFor OperationMode_OCR) ?ps)
             = Inr (CompletionResponse ''{}'' 0 0)"
    by blast
  from missing_usage_metadata_gives_zero_tokens [OF c2 v2 u t] m2 p
  have b: "fst (getCompletion ?env (adapterFor OperationMode_EXTRACTION) ?ps)
             = Inr (ExtractionResponse (JObject []) 0 0)"
    by blast
  from a b show ?thesis by (intro conjI)
qed

subsection \<open>C6: no consistency instruction without \<open>maintainFormat\<close>\<close>

text \<open>
  C6. For an OCR request with \<open>maintainFormat\<close> false, whatever \<open>priorPage\<close> is (absent,
  empty or a text), the parts sent are exactly the base instruction and the image:
  there is no consistency instruction.
\<close>

theorem ocr_without_maintainFormat_has_no_consistency_part:
  assumes "mode this = OperationMode_OCR"
    and "\<not> maintainFormat ps"
  shows "requestsOf (snd (getCompletion env this ps)) =
           (case encodeImageToBase64 env (image_arg ps) of
              Inl err \<Rightarrow> []
            | Inr b64 \<Rightarrow>
                [\<lparr>contents =
                    [\<lparr>role = ''user'',
                      parts = [TextPart (SYSTEM_PROMPT_BASE env),
                               InlineData b64 ''image/png'']\<rparr>]\<rparr>])"
  using assms
  by (simp add: getCompletion_OCR handleOCR_def Let_def split: sum.splits option.splits)

theorem ocr_without_maintainFormat_has_no_consistency_part_witness:
  "requestsOf (snd (getCompletion
       (substituteEnv (Inr \<lparr>responseText = Inr ''# Page 2'', usage = None\<rparr>))
       (adapterFor OperationMode_OCR) (pageArgs False (Some ''# Page 1''))))
   = [\<lparr>contents =
        [\<lparr>role = ''user'',
          parts = [TextPart ''Convert the following document to markdown.'',
                   InlineData ''iVBORw0KGgo='' ''image/png'']\<rparr>]\<rparr>]"
proof -
  let ?env = "substituteEnv (Inr \<lparr>responseText = Inr ''# Page 2'', usage = None\<rparr>)"
  let ?ps = "pageArgs False (Some ''# Page 1'')"
  have h1: "mode (adapterFor OperationMode_OCR) = OperationMode_OCR"
    by (simp add: adapterFor_def)
  have h2: "\<not> maintainFormat ?ps"
    by (simp add: pageArgs_def)
  from ocr_without_maintainFormat_has_no_consistency_part [OF h1 h2, of ?env] show ?thesis
    by (simp add: substituteEnv_def)
qed

subsection \<open>C7: a failing vendor call\<close>

text \<open>
  C7. Whenever the call made to the vendor fails, \<open>getCompletion\<close> rejects with that
  very error and returns no result; the trace of the call is the model lookup, the one
  vendor call (no second attempt) and one \<open>console.error\<close> entry carrying the error.
  This holds in both modes (no other mode makes a vendor call).
\<close>

theorem vendor_failure_logged_once_and_rethrown:
  assumes "GenerateContent mp req \<in> set (snd (getCompletion env this ps))"
    and "generateContent env mp req = Inl err"
  shows "getCompletion env this ps =
           (Inl err, [GetGenerativeModel mp, GenerateContent mp req,
                      ConsoleError ''Error in Google completion'' err])"
proof -
  consider (ocr) "mode this = OperationMode_OCR" | (ext) "mode this = OperationMode_EXTRACTION"
    | (other) "mode this \<noteq> OperationMode_OCR" "mode this \<noteq> OperationMode_EXTRACTION"
    by blast
  then show ?thesis
  proof cases
    case ocr
    with assms show ?thesis
      by (auto simp: getCompletion_OCR handleOCR_def Let_def split: sum.splits option.splits if_splits)
  next
    case ext
    with assms show ?thesis
      by (auto simp: getCompletion_EXTRACTION handleExtraction_def Let_def split: sum.splits)
  next
    case other
    with assms show ?thesis
      by (auto simp: getCompletion_unregistered split: if_splits)
  qed
qed

theorem vendor_failure_logged_once_and_rethrown_witness:
  "getCompletion (substituteEnv (Inl (JsError ''GoogleGenerativeAIFetchError'' ''429'')))
     (adapterFor OperationMode_OCR) (pageArgs False None)
   = (Inl (JsError ''GoogleGenerativeAIFetchError'' ''429''),
      [GetGenerativeModel
         \<lparr>generationConfig =
            Some [(''max_output_tokens'', JNumber 256), (''top_k'', JNumber 4)],
          modelName = ''gemini-1.5-flash''\<rparr>,
       GenerateContent
         \<lparr>generationConfig =
            Some [(''max_output_tokens'', JNumber 256), (''top_k'', JNumber 4)],
          modelName = ''gemini-1.5-flash''\<rparr>
         \<lparr>contents =
            [\<lparr>role = ''user'',
              parts = [TextPart ''Convert the following document to markdown.'',
                       InlineData ''iVBORw0KGgo='' ''image/png'']\<rparr>]\<rparr>,
       ConsoleError ''Error in Google completion''
         (JsError ''GoogleGenerativeAIFetchError'' ''429'')])"
proof -
  let ?err = "JsError ''GoogleGenerativeAIFetchError'' ''429''"
  let ?env = "substituteEnv (Inl ?err)"
  let ?req = "\<lparr>contents =
                [\<lparr>role = ''user'',
                  parts = [TextPart ''Convert the following document to markdown.'',
                           InlineData ''iVBORw0KGgo='' ''image/png'']\<rparr>]\<rparr>"
  let ?mp = "\<lparr>generationConfig =
                Some [(''max_output_tokens'', JNumber 256), (''top_k'', JNumber 4)],
              modelName = ''gemini-1.5-flash''\<rparr>"
  have h1: "GenerateContent ?mp ?req
              \<in> set (snd (getCompletion ?env (adapterFor OperationMode_OCR) (pageArgs False None)))"
    by code_simp
  have h2: "generateContent ?env ?mp ?req = Inl ?err"
    by (simp add: substituteEnv_def)
  from vendor_failure_logged_once_and_rethrown [OF h1 h2] show ?thesis .
qed

subsection \<open>C8: generation parameters are passed with translated keys\<close>

text \<open>
  C8. In both modes, when the adapter has \<open>llmParams\<close>, every generation configuration
  handed to the SDK has as keys the snake_case translations of the keys of
  \<open>llmParams\<close> (in EXTRACTION mode together with the two response keys), and, when no
  two keys translate to the same name, each translated key carries the caller's value
  (nested keys translated likewise). The translation itself is the one modelled from
  the spec.
\<close>

theorem llmParams_keys_translated_to_snake_case:
  assumes "mode this = OperationMode_OCR \<or> mode this = OperationMode_EXTRACTION"
    and "llmParams this = Some kvs"
  shows "configsOf (snd (getCompletion env this ps)) \<noteq> []
         \<and> (\<forall>mp \<in> set (configsOf (snd (getCompletion env this ps))).
              \<exists>cfg. generationConfig mp = Some cfg
                \<and> fst ` set cfg =
                    camelToSnakeCase ` fst ` set kvs
                    \<union> (if mode this = OperationMode_EXTRACTION
                        then {''responseMimeType'', ''responseSchema''} else {})
                \<and> (distinct (map (\<lambda>(k, v). camelToSnakeCase k) kvs) \<longrightarrow>
                     (\<forall>(k, v) \<in> set kvs.
                        obj_get cfg (camelToSnakeCase k) = Some (convertValue v))))"
  using assms(1)
proof
  assume ocr: "mode this = OperationMode_OCR"
  then have ne: "mode this \<noteq> OperationMode_EXTRACTION"
    by (simp add: OperationMode_EXTRACTION_def OperationMode_OCR_def)
  have s: "set (configsOf (snd (getCompletion env this ps))) =
             {\<lparr>generationConfig = Some (translateEntries kvs), modelName = model this\<rparr>}"
    using ocr assms(2)
    by (simp add: getCompletion_OCR configsOf_handleOCR convertKeysToSnakeCase_Some)
  show ?thesis
  proof (intro conjI ballI)
    show "configsOf (snd (getCompletion env this ps)) \<noteq> []"
      using s by (rule configsOf_nonempty)
  next
    fix mp
    assume "mp \<in> set (configsOf (snd (getCompletion env this ps)))"
    with s have mp: "generationConfig mp = Some (translateEntries kvs)" by simp
    have "generationConfig mp = Some (translateEntries kvs)
          \<and> fst ` set (translateEntries kvs) =
                camelToSnakeCase ` fst ` set kvs
                \<union> (if mode this = OperationMode_EXTRACTION
                    then {''responseMimeType'', ''responseSchema''} else {})
          \<and> (distinct (map (\<lambda>(k, v). camelToSnakeCase k) kvs) \<longrightarrow>
                 (\<forall>(k, v) \<in> set kvs.
                    obj_get (translateEntries kvs) (camelToSnakeCase k) = Some (convertValue v)))"
      by (intro conjI mp ocr_config_keys [OF ne] ocr_config_lookup)
    then show "\<exists>cfg. generationConfig mp = Some cfg
                \<and> fst ` set cfg =
                    camelToSnakeCase ` fst ` set kvs
                    \<union> (if mode this = OperationMode_EXTRACTION
                        then {''responseMimeType'', ''responseSchema''} else {})
                \<and> (distinct (map (\<lambda>(k, v). camelToSnakeCase k) kvs) \<longrightarrow>
                     (\<forall>(k, v) \<in> set kvs.
                        obj_get cfg (camelToSnakeCase k) = Some (convertValue v)))"
      by - (rule exI, assumption)
  qed
next
  assume ext: "mode this = OperationMode_EXTRACTION"
  let ?cfg = "obj_set ''responseSchema'' (schema ps)
                (obj_set ''responseMimeType'' (JString ''application/json'') (translateEntries kvs))"
  have s: "set (configsOf (snd (getCompletion env this ps))) =
             {\<lparr>generationConfig = Some ?cfg, modelName = model this\<rparr>}"
    using ext assms(2)
    by (simp add: getCompletion_EXTRACTION configsOf_handleExtraction
        convertKeysToSnakeCase_Some spread_def)
  show ?thesis
  proof (intro conjI ballI)
    show "configsOf (snd (getCompletion env this ps)) \<noteq> []"
      using s by (rule configsOf_nonempty)
  next
    fix mp
    assume "mp \<in> set (configsOf (snd (getCompletion env this ps)))"
    with s have mp: "generationConfig mp = Some ?cfg" by simp
    have "generationConfig mp = Some ?cfg
          \<and> fst ` set ?cfg =
                camelToSnakeCase ` fst ` set kvs
                \<union> (if mode this = OperationMode_EXTRACTION
                    then {''responseMimeType'', ''responseSchema''} else {})
          \<and> (distinct (map (\<lambda>(k, v). camelToSnakeCase k) kvs) \<longrightarrow>
                 (\<forall>(k, v) \<in> set kvs.
                    obj_get ?cfg (camelToSnakeCase k) = Some (convertValue v)))"
      by (intro conjI mp extraction_config_keys [OF ext] extraction_config_lookup)
    then show "\<exists>cfg. generationConfig mp = Some cfg
                \<and> fst ` set cfg =
                    camelToSnakeCase ` fst ` set kvs
                    \<union> (if mode this = OperationMode_EXTRACTION
                        then {''responseMimeType'', ''responseSchema''} else {})
                \<and> (distinct (map (\<lambda>(k, v). camelToSnakeCase k) kvs) \<longrightarrow>
                     (\<forall>(k, v) \<in> set kvs.
                        obj_get cfg (camelToSnakeCase k) = Some (convertValue v)))"
      by - (rule exI, assumption)
  qed
qed

theorem llmParams_keys_translated_to_snake_case_witness:
  "fst ` set [(''max_output_tokens'', JNumber 256), (''top_k'', JNumber 4)]
     = camelToSnakeCase ` {''maxOutputTokens'', ''topK''}
   \<and> map generationConfig
        (configsOf (snd (getCompletion
           (substituteEnv (Inr \<lparr>responseText = Inr ''{}'', usage = None\<rparr>))
           (adapterFor OperationMode_OCR) (pageArgs False None))))
       = [Some [(''max_output_tokens'', JNumber 256), (''top_k'', JNumber 4)],
          Some [(''max_output_tokens'', JNumber 256), (''top_k'', JNumber 4)]]"
proof -
  let ?env = "substituteEnv (Inr \<lparr>responseText = Inr ''{}'', usage = None\<rparr>)"
  let ?adapter = "adapterFor OperationMode_OCR"
  let ?ps = "pageArgs False None"
  let ?kvs = "[(''maxOutputTokens'', JNumber 256), (''topK'', JNumber 4)]"
  let ?cfg = "[(''max_output_tokens'', JNumber 256), (''top_k'', JNumber 4)]"
  let ?mp = "\<lparr>generationConfig = Some ?cfg, modelName = ''gemini-1.5-flash''\<rparr>"
  have h1: "mode ?adapter = OperationMode_OCR \<or> mode ?adapter = OperationMode_EXTRACTION"
    by (simp add: adapterFor_def)
  have h2: "llmParams ?adapter = Some ?kvs"
    by (simp add: adapterFor_def)
  have ne: "mode ?adapter \<noteq> OperationMode_EXTRACTION"
    by (simp add: adapterFor_def OperationMode_OCR_def OperationMode_EXTRACTION_def)
  have tr: "map generationConfig (configsOf (snd (getCompletion ?env ?adapter ?ps)))
              = [Some ?cfg, Some ?cfg]"
    by code_simp
  have mem: "?mp \<in> set (configsOf (snd (getCompletion ?env ?adapter ?ps)))"
    by code_simp
  from llmParams_keys_translated_to_snake_case [OF h1 h2, of ?env ?ps] mem
  have "\<exists>cfg. generationConfig ?mp = Some cfg
          \<and> fst ` set cfg =
              camelToSnakeCase ` fst ` set ?kvs
              \<union> (if mode ?adapter = OperationMode_EXTRACTION
                  then {''responseMimeType'', ''responseSchema''} else {})"
    by blast
  then have "fst ` set ?cfg = camelToSnakeCase ` fst ` set ?kvs
              \<union> (if mode ?adapter = OperationMode_EXTRACTION
                  then {''responseMimeType'', ''responseSchema''} else {})"
    by simp
  with ne have "fst ` set ?cfg = camelToSnakeCase ` fst ` set ?kvs"
    by (simp only: if_False Un_empty_right)
  then have "fst ` set ?cfg = camelToSnakeCase ` {''maxOutputTokens'', ''topK''}"
    by (simp add: insert_commute)
  with tr show ?thesis by (intro conjI)
qed

subsection \<open>C9: the shape of every outbound request\<close>

text \<open>
  C9. Every request sent to the vendor, in either mode, is a single message of role
  \<open>user\<close> whose parts hold exactly one inline part: the base64 encoding of the image
  of the request, declared as \<open>image/png\<close> whatever the image is, in last position.
\<close>

theorem request_is_one_user_message_with_png_last:
  assumes "req \<in> set (requestsOf (snd (getCompletion env this ps)))"
  shows "\<exists>b64 pts. encodeImageToBase64 env (image_arg ps) = Inr b64
           \<and> contents req = [\<lparr>role = ''user'', parts = pts\<rparr>]
           \<and> filter isInlineData pts = [InlineData b64 ''image/png'']
           \<and> pts \<noteq> [] \<and> last pts = InlineData b64 ''image/png''"
proof -
  consider (ocr) "mode this = OperationMode_OCR" | (ext) "mode this = OperationMode_EXTRACTION"
    | (other) "mode this \<noteq> OperationMode_OCR" "mode this \<noteq> OperationMode_EXTRACTION"
    by blast
  then show ?thesis
  proof cases
    case ocr
    with assms show ?thesis
      by (auto simp: getCompletion_OCR handleOCR_def Let_def split: sum.splits option.splits if_splits)
  next
    case ext
    with assms show ?thesis
      by (auto simp: getCompletion_EXTRACTION handleExtraction_def Let_def split: sum.splits)
  next
    case other
    with assms show ?thesis
      by (auto simp: getCompletion_unregistered split: if_splits)
  qed
qed

theorem request_is_one_user_message_with_png_last_witness:
  "filter isInlineData
     [TextPart ''Extract schema data from the following image'',
      InlineData ''iVBORw0KGgo='' ''image/png'']
   = [InlineData ''iVBORw0KGgo='' ''image/png'']
   \<and> requestsOf (snd (getCompletion
          (substituteEnv (Inr \<lparr>responseText = Inr ''{}'', usage = None\<rparr>))
          (adapterFor OperationMode_EXTRACTION) (pageArgs False None)))
       = [\<lparr>contents =
            [\<lparr>role = ''user'',
              parts = [TextPart ''Extract schema data from the following image'',
                       InlineData ''iVBORw0KGgo='' ''image/png'']\<rparr>]\<rparr>]"
proof -
  let ?env = "substituteEnv (Inr \<lparr>responseText = Inr ''{}'', usage = None\<rparr>)"
  let ?adapter = "adapterFor OperationMode_EXTRACTION"
  let ?ps = "pageArgs False None"
  let ?pts = "[TextPart ''Extract schema data from the following image'',
               InlineData ''iVBORw0KGgo='' ''image/png'']"
  let ?req = "\<lparr>contents = [\<lparr>role = ''user'', parts = ?pts\<rparr>]\<rparr>"
  have rs: "requestsOf (snd (getCompletion ?env ?adapter ?ps)) = [?req]"
    by code_simp
  then have h: "?req \<in> set (requestsOf (snd (getCompletion ?env ?adapter ?ps)))"
    by simp
  have e: "encodeImageToBase64 ?env (image_arg ?ps) = Inr ''iVBORw0KGgo=''"
    by (simp add: substituteEnv_def)
  from request_is_one_user_message_with_png_last [OF h]
  obtain b64 pts where "encodeImageToBase64 ?env (image_arg ?ps) = Inr b64"
    and "contents ?req = [\<lparr>role = ''user'', parts = pts\<rparr>]"
    and f: "filter isInlineData pts = [InlineData b64 ''image/png'']"
    by blast
  with e have "b64 = ''iVBORw0KGgo=''" and "pts = ?pts"
    by simp_all
  with f have "filter isInlineData ?pts = [InlineData ''iVBORw0KGgo='' ''image/png'']"
    by simp
  with rs show ?thesis by (intro conjI)
qed

subsection \<open>C10: extraction depends on image and schema only\<close>

text \<open>
  C10. In EXTRACTION mode, two requests with the same image and the same schema give
  the same call: the same events (so the same payload sent to the vendor) and the
  same outcome, whatever their \<open>maintainFormat\<close> and \<open>priorPage\<close>.
\<close>

theorem extraction_ignores_ocr_fields:
  assumes "mode this = OperationMode_EXTRACTION"
    and "image_arg a = image_arg b"
    and "schema a = schema b"
  shows "getCompletion env this a = getCompletion env this b"
  using assms by (simp add: getCompletion_EXTRACTION handleExtraction_def)

theorem extraction_ignores_ocr_fields_witness:
  "getCompletion (substituteEnv (Inr \<lparr>responseText = Inr ''{}'', usage = None\<rparr>))
     (adapterFor OperationMode_EXTRACTION) (pageArgs True (Some ''# Page 1''))
   = getCompletion (substituteEnv (Inr \<lparr>responseText = Inr ''{}'', usage = None\<rparr>))
       (adapterFor OperationMode_EXTRACTION) (pageArgs False None)"
proof -
  have h1: "mode (adapterFor OperationMode_EXTRACTION) = OperationMode_EXTRACTION"
    by (simp add: adapterFor_def)
  have h2: "image_arg (pageArgs True (Some ''# Page 1'')) = image_arg (pageArgs False None)"
    by (simp add: pageArgs_def)
  have h3: "schema (pageArgs True (Some ''# Page 1'')) = schema (pageArgs False None)"
    by (simp add: pageArgs_def)
  from extraction_ignores_ocr_fields [OF h1 h2 h3] show ?thesis .
qed

end
